theory Spec2Isabelle
  imports
    Main
    "HOL-Library.Char_ord"
    "HOL-Library.List_Lexorder"
    "HOL-Library.Multiset"
    "HOL-Library.Sublist"
begin

section \<open>Data model\<close>

text \<open>
  The development embeds \<^verbatim>\<open>src/routes/crypto.js\<close>: the two module-level caches and
  the five route handlers. A watchlist item is the object \<^verbatim>\<open>{ coinId, coinName }\<close> that the
  add handler pushes; a watchlist is the ordered array of a user document.
\<close>

record watchlist_item =
  coinId :: string
  coinName :: string

type_synonym watchlist = "watchlist_item list"

text \<open>
  A cache entry is the object \<^verbatim>\<open>{ data, cachedAt }\<close>. Timestamps are the integer
  milliseconds of \<^verbatim>\<open>Date.now()\<close>. In the watchlist cache the payload is the JSON array the
  provider answers with (rows of type \<open>'r\<close>); the watchlist handler tests the entry
  object, never the payload.
\<close>

record 'p cache_entry =
  data :: 'p
  cachedAt :: int

text \<open>
  The top-coins handler stores \<^verbatim>\<open>response.data\<close> as it comes and tests
  \<^verbatim>\<open>topCache.data\<close> itself for truthiness, so its payload is an arbitrary JSON value
  (\<^verbatim>\<open>axios\<close> hands over the parsed body, or the body as a string). Numbers are of a type
  \<open>'n\<close> with a zero. The falsy values are \<open>null\<close>, \<open>false\<close>, the number zero and the empty
  string; every array and object is truthy, also an empty one.
\<close>

datatype 'n json =
    JNull
  | JBool bool
  | JNum 'n
  | JStr string
  | JArr "'n json list"
  | JObj "(string \<times> 'n json) list"

fun truthy :: "'n::zero json \<Rightarrow> bool" where
  "truthy JNull = False"
| "truthy (JBool b) = b"
| "truthy (JNum x) = (x \<noteq> 0)"
| "truthy (JStr s) = (s \<noteq> [])"
| "truthy (JArr xs) = True"
| "truthy (JObj kvs) = True"

text \<open>\<^verbatim>\<open>let topCache = { data: null, cachedAt: 0 }\<close>.\<close>

type_synonym 'n top_cache = "'n json cache_entry"

definition topCache_init :: "'n top_cache" where
  "topCache_init = \<lparr>data = JNull, cachedAt = 0\<rparr>"

text \<open>
  \<^verbatim>\<open>let watchlistCache = {}\<close> is a plain object used as a dictionary from the joined
  identifiers to entries. Reading \<^verbatim>\<open>watchlistCache[k]\<close> finds an own property first and
  then walks the prototype chain, so besides an entry or \<open>undefined\<close> the read can yield a
  value inherited from \<^verbatim>\<open>Object.prototype\<close> (a function such as \<^verbatim>\<open>constructor\<close>): a truthy
  value with neither \<^verbatim>\<open>data\<close> nor \<^verbatim>\<open>cachedAt\<close>. Assigning to the key \<^verbatim>\<open>__proto__\<close> runs
  the inherited setter: it replaces the prototype of the cache object by the entry and
  creates no own property. The record keeps the own properties and that replaced
  prototype (\<open>None\<close> while the prototype is still \<^verbatim>\<open>Object.prototype\<close>).
\<close>

record 'r watchlist_cache =
  own :: "string \<Rightarrow> 'r list cache_entry option"
  proto :: "'r list cache_entry option"

definition watchlistCache_init :: "'r watchlist_cache" where
  "watchlistCache_init = \<lparr>own = Map.empty, proto = None\<rparr>"

datatype 'r slot =
    SlotUndefined
  | SlotEntry "'r list cache_entry"
  | SlotForeign

definition object_prototype_names :: "string list" where
  "object_prototype_names =
     [''constructor'', ''__defineGetter__'', ''__defineSetter__'', ''hasOwnProperty'',
      ''__lookupGetter__'', ''__lookupSetter__'', ''isPrototypeOf'',
      ''propertyIsEnumerable'', ''toString'', ''valueOf'', ''toLocaleString'']"

definition inherited :: "string \<Rightarrow> 'r slot" where
  "inherited k = (if k \<in> set object_prototype_names then SlotForeign else SlotUndefined)"

text \<open>
  The read \<^verbatim>\<open>watchlistCache[k]\<close>. With a replaced prototype \<open>e\<close> the names \<^verbatim>\<open>data\<close> and
  \<^verbatim>\<open>cachedAt\<close> are found on \<open>e\<close>: the array (truthy, no \<^verbatim>\<open>cachedAt\<close> of its own) and the
  number (truthy unless it is 0).
\<close>

definition cache_get :: "'r watchlist_cache \<Rightarrow> string \<Rightarrow> 'r slot" where
  "cache_get c k =
     (if k = ''__proto__'' then
        (case proto c of Some e \<Rightarrow> SlotEntry e | None \<Rightarrow> SlotForeign)
      else
        (case own c k of
           Some e \<Rightarrow> SlotEntry e
         | None \<Rightarrow>
             (case proto c of
                Some e \<Rightarrow>
                  (if k = ''data'' then SlotForeign
                   else if k = ''cachedAt'' then
                     (if cachedAt e = 0 then SlotUndefined else SlotForeign)
                   else inherited k)
              | None \<Rightarrow> inherited k)))"

text \<open>The assignment \<^verbatim>\<open>watchlistCache[k] = e\<close>.\<close>

definition cache_put ::
  "'r watchlist_cache \<Rightarrow> string \<Rightarrow> 'r list cache_entry \<Rightarrow> 'r watchlist_cache" where
  "cache_put c k e =
     (if k = ''__proto__'' then c\<lparr>proto := Some e\<rparr>
      else c\<lparr>own := (own c)(k \<mapsto> e)\<rparr>)"

subsection \<open>Collaborators\<close>

text \<open>
  An awaited call either returns a value or throws. \<^verbatim>\<open>axios.get\<close> resolves with a
  response whose \<^verbatim>\<open>data\<close> is the payload, or rejects.
\<close>

datatype 'a io = Returned 'a | Threw

datatype 'p upstream = Resolved 'p | Failed

type_synonym 'u db = "'u \<Rightarrow> watchlist option"

text \<open>
  Modelled from the spec: the persistence collaborator \<^verbatim>\<open>models/User\<close> is not among the
  sources. \<^verbatim>\<open>User.findById\<close> yields the user document, \<open>null\<close> when there is none, or
  fails (a persistence fault); \<^verbatim>\<open>user.save()\<close> writes the document back or fails. Whether
  a call faults is an input of the model.
\<close>

definition findById :: "bool \<Rightarrow> 'u db \<Rightarrow> 'u \<Rightarrow> watchlist option io" where
  "findById fault db uid = (if fault then Threw else Returned (db uid))"

definition save :: "bool \<Rightarrow> 'u db \<Rightarrow> 'u \<Rightarrow> watchlist \<Rightarrow> 'u db io" where
  "save fault db uid w = (if fault then Threw else Returned (db(uid \<mapsto> w)))"

subsection \<open>Responses and effects\<close>

text \<open>
  The value handed to \<^verbatim>\<open>res.json\<close>: an upstream payload passed through (\<open>'p\<close> is the
  array of market rows, or the detail object of one coin), the value \<open>undefined\<close> (sent as
  an empty body), \<^verbatim>\<open>{ error }\<close>, or \<^verbatim>\<open>{ message, watchlist }\<close>. The status is 200 unless
  \<^verbatim>\<open>res.status\<close> sets it.
\<close>

datatype 'p body =
    Json 'p
  | UndefinedBody
  | ErrorBody string
  | MessageBody string watchlist

datatype 'p response = Response nat "'p body"

text \<open>
  A handler is an \<^verbatim>\<open>async\<close> function: it either sends a response, or an exception leaves
  it and its promise rejects with nothing sent by the handler. The authentication
  middleware runs before the watchlist handlers and supplies \<^verbatim>\<open>req.userId\<close>; it is not
  part of the model.
\<close>

datatype 'p outcome = Responded "'p response" | Rejected

datatype event =
    FindById
  | Save
  | CacheRead string
  | CacheWrite string
  | UpstreamGet string

definition upstream_calls :: "event list \<Rightarrow> nat" where
  "upstream_calls evs = length (filter (\<lambda>ev. case ev of UpstreamGet u \<Rightarrow> True | _ \<Rightarrow> False) evs)"

definition cache_reads :: "event list \<Rightarrow> nat" where
  "cache_reads evs = length (filter (\<lambda>ev. case ev of CacheRead k \<Rightarrow> True | _ \<Rightarrow> False) evs)"

definition saves :: "event list \<Rightarrow> nat" where
  "saves evs = length (filter (\<lambda>ev. ev = Save) evs)"

section \<open>The handlers\<close>

subsection \<open>GET /top\<close>

definition top_url :: string where
  "top_url = ''https://api.coingecko.com/api/v3/coins/markets?vs_currency=usd&order=market_cap_desc&per_page=100&page=1&sparkline=true&price_change_percentage=24h''"

text \<open>
  \<open>now\<close> is the clock read on entry, \<open>now'\<close> the second \<^verbatim>\<open>Date.now()\<close>, read when the
  upstream call has returned. The result is the outcome, the cache afterwards and the
  effects in order.
\<close>

definition top_handler ::
  "int \<Rightarrow> int \<Rightarrow> 'n json upstream \<Rightarrow> 'n::zero top_cache \<Rightarrow>
     'n json outcome \<times> 'n top_cache \<times> event list" where
  "top_handler now now' up topCache =
     (if truthy (data topCache) \<and> now - cachedAt topCache < 30000 then
        (Responded (Response 200 (Json (data topCache))), topCache, [])
      else
        (case up of
           Resolved p \<Rightarrow>
             (Responded (Response 200 (Json p)), \<lparr>data = p, cachedAt = now'\<rparr>,
              [UpstreamGet top_url])
         | Failed \<Rightarrow>
             (if truthy (data topCache) then
                (Responded (Response 200 (Json (data topCache))), topCache,
                 [UpstreamGet top_url])
              else
                (Responded (Response 500 (ErrorBody ''Failed to fetch crypto data'')),
                 topCache, [UpstreamGet top_url]))))"

subsection \<open>GET /coin/:id\<close>

definition coin_url :: "string \<Rightarrow> string" where
  "coin_url cid = ''https://api.coingecko.com/api/v3/coins/'' @ cid"

definition coin_handler :: "string \<Rightarrow> 'd upstream \<Rightarrow> 'd outcome \<times> event list" where
  "coin_handler cid up =
     (case up of
        Resolved d \<Rightarrow> (Responded (Response 200 (Json d)), [UpstreamGet (coin_url cid)])
      | Failed \<Rightarrow>
          (Responded (Response 500 (ErrorBody ''Failed to fetch coin data'')),
           [UpstreamGet (coin_url cid)]))"

subsection \<open>POST /watchlist\<close>

text \<open>
  Reading \<^verbatim>\<open>user.watchlist\<close> of \<open>null\<close> throws inside the \<^verbatim>\<open>try\<close>, as a failed load does;
  the \<^verbatim>\<open>catch\<close> answers 500.
\<close>

definition add_handler ::
  "bool \<Rightarrow> bool \<Rightarrow> 'u db \<Rightarrow> 'u \<Rightarrow> string \<Rightarrow> string \<Rightarrow>
     'p outcome \<times> 'u db \<times> event list" where
  "add_handler find_fault save_fault db uid cid cname =
     (case findById find_fault db uid of
        Returned (Some w) \<Rightarrow>
          (if list_ex (\<lambda>item. coinId item = cid) w then
             (Responded (Response 400 (ErrorBody ''Coin already in watchlist'')), db, [FindById])
           else
             (let w' = w @ [\<lparr>coinId = cid, coinName = cname\<rparr>] in
              case save save_fault db uid w' of
                Returned db' \<Rightarrow>
                  (Responded (Response 200 (MessageBody ''Added to watchlist'' w')), db',
                   [FindById, Save])
              | Threw \<Rightarrow>
                  (Responded (Response 500 (ErrorBody ''Server error'')), db, [FindById, Save])))
      | _ \<Rightarrow> (Responded (Response 500 (ErrorBody ''Server error'')), db, [FindById]))"

subsection \<open>DELETE /watchlist/:coinId\<close>

definition remove_handler ::
  "bool \<Rightarrow> bool \<Rightarrow> 'u db \<Rightarrow> 'u \<Rightarrow> string \<Rightarrow> 'p outcome \<times> 'u db \<times> event list" where
  "remove_handler find_fault save_fault db uid cid =
     (case findById find_fault db uid of
        Returned (Some w) \<Rightarrow>
          (let w' = filter (\<lambda>item. coinId item \<noteq> cid) w in
           case save save_fault db uid w' of
             Returned db' \<Rightarrow>
               (Responded (Response 200 (MessageBody ''Removed from watchlist'' w')), db',
                [FindById, Save])
           | Threw \<Rightarrow>
               (Responded (Response 500 (ErrorBody ''Server error'')), db, [FindById, Save]))
      | _ \<Rightarrow> (Responded (Response 500 (ErrorBody ''Server error'')), db, [FindById]))"

subsection \<open>GET /watchlist\<close>

text \<open>\<^verbatim>\<open>Array.prototype.join\<close> with a separator.\<close>

fun join :: "string \<Rightarrow> string list \<Rightarrow> string" where
  "join sep [] = []"
| "join sep [x] = x"
| "join sep (x # y # ys) = x @ sep @ join sep (y # ys)"

text \<open>
  \<^verbatim>\<open>user.watchlist.map(item => item.coinId)\<close>, sorted by the default comparison of
  \<^verbatim>\<open>Array.prototype.sort\<close> (strings by their character codes, a prefix first) and joined
  with a comma.
\<close>

definition cache_key :: "watchlist \<Rightarrow> string" where
  "cache_key w = join '','' (sort (map coinId w))"

definition watchlist_url :: "string \<Rightarrow> string" where
  "watchlist_url coinIds =
     ''https://api.coingecko.com/api/v3/coins/markets?vs_currency=usd&ids='' @ coinIds @
     ''&order=market_cap_desc&sparkline=true&price_change_percentage=24h''"

datatype 'a attempt = Done 'a | Thrown

text \<open>The part of the \<^verbatim>\<open>try\<close> block from the upstream call on.\<close>

definition list_fetch ::
  "string \<Rightarrow> int \<Rightarrow> 'r list upstream \<Rightarrow> 'r watchlist_cache \<Rightarrow> event list \<Rightarrow>
     'r list response attempt \<times> 'r watchlist_cache \<times> event list" where
  "list_fetch coinIds now' up c evs =
     (case up of
        Resolved p \<Rightarrow>
          (Done (Response 200 (Json p)), cache_put c coinIds \<lparr>data = p, cachedAt = now'\<rparr>,
           evs @ [UpstreamGet (watchlist_url coinIds), CacheWrite coinIds])
      | Failed \<Rightarrow> (Thrown, c, evs @ [UpstreamGet (watchlist_url coinIds)]))"

text \<open>
  The \<^verbatim>\<open>try\<close> block. A value that is not an entry has no \<^verbatim>\<open>cachedAt\<close>: the difference
  is \<open>NaN\<close> and the comparison is false.
\<close>

definition list_try ::
  "watchlist option io \<Rightarrow> int \<Rightarrow> int \<Rightarrow> 'r list upstream \<Rightarrow> 'r watchlist_cache \<Rightarrow>
     'r list response attempt \<times> 'r watchlist_cache \<times> event list" where
  "list_try found now now' up c =
     (case found of
        Returned (Some w) \<Rightarrow>
          (if length w = 0 then (Done (Response 200 (Json [])), c, [FindById])
           else
             (let coinIds = cache_key w in
              case cache_get c coinIds of
                SlotEntry cached \<Rightarrow>
                  (if now - cachedAt cached < 30000 then
                     (Done (Response 200 (Json (data cached))), c, [FindById, CacheRead coinIds])
                   else list_fetch coinIds now' up c [FindById, CacheRead coinIds])
              | _ \<Rightarrow> list_fetch coinIds now' up c [FindById, CacheRead coinIds]))
      | _ \<Rightarrow> (Thrown, c, [FindById]))"

text \<open>
  The \<^verbatim>\<open>catch\<close> block: it awaits a second \<^verbatim>\<open>User.findById\<close> outside any \<^verbatim>\<open>try\<close>, so a
  fault there, or a \<open>null\<close> user, leaves the handler. A truthy value that is not an entry
  passes \<^verbatim>\<open>if (stale)\<close> and its \<^verbatim>\<open>data\<close> is \<open>undefined\<close>.
\<close>

definition list_catch ::
  "watchlist option io \<Rightarrow> 'r watchlist_cache \<Rightarrow> 'r list outcome \<times> event list" where
  "list_catch found c =
     (case found of
        Returned (Some w) \<Rightarrow>
          (let coinIdsKey = cache_key w in
           (case cache_get c coinIdsKey of
              SlotEntry stale \<Rightarrow> Responded (Response 200 (Json (data stale)))
            | SlotForeign \<Rightarrow> Responded (Response 200 UndefinedBody)
            | SlotUndefined \<Rightarrow>
                Responded (Response 500 (ErrorBody ''Failed to fetch watchlist data'')),
            [FindById, CacheRead coinIdsKey]))
      | _ \<Rightarrow> (Rejected, [FindById]))"

text \<open>
  The handler: \<open>found\<close> and \<open>found'\<close> are the results of the first and of the second
  \<^verbatim>\<open>User.findById\<close> (the second is only awaited in the \<^verbatim>\<open>catch\<close> block).
\<close>

definition list_handler ::
  "watchlist option io \<Rightarrow> watchlist option io \<Rightarrow> int \<Rightarrow> int \<Rightarrow> 'r list upstream \<Rightarrow>
     'r watchlist_cache \<Rightarrow> 'r list outcome \<times> 'r watchlist_cache \<times> event list" where
  "list_handler found found' now now' up c =
     (case list_try found now now' up c of
        (Done r, c', evs) \<Rightarrow> (Responded r, c', evs)
      | (Thrown, c', evs) \<Rightarrow>
          (case list_catch found' c' of (out, evs') \<Rightarrow> (out, c', evs @ evs')))"

subsection \<open>The uniqueness invariant\<close>

definition unique_ids :: "watchlist \<Rightarrow> bool" where
  "unique_ids w = distinct (map coinId w)"

definition db_unique :: "'u db \<Rightarrow> bool" where
  "db_unique db = (\<forall>u w. db u = Some w \<longrightarrow> unique_ids w)"

section \<open>Watchlist mutation\<close>

lemma remove_absent_filter:
  "\<not> list_ex (\<lambda>item. coinId item = cid) w \<Longrightarrow> filter (\<lambda>item. coinId item \<noteq> cid) w = w"
  by (induction w) auto

lemma list_ex_coinId: "list_ex (\<lambda>item. coinId item = cid) w \<longleftrightarrow> cid \<in> set (map coinId w)"
  by (induction w) auto

lemma unique_ids_push:
  "unique_ids w \<Longrightarrow> \<not> list_ex (\<lambda>item. coinId item = cid) w \<Longrightarrow>
     unique_ids (w @ [\<lparr>coinId = cid, coinName = cname\<rparr>])"
  by (simp add: unique_ids_def list_ex_coinId)

lemma unique_ids_filter: "unique_ids w \<Longrightarrow> unique_ids (filter (\<lambda>item. coinId item \<noteq> cid) w)"
  by (simp add: unique_ids_def distinct_map_filter)

lemma db_unique_upd: "db_unique db \<Longrightarrow> unique_ids w \<Longrightarrow> db_unique (db(uid \<mapsto> w))"
  by (simp add: db_unique_def)

lemma count_list_filter_keep: "P x \<Longrightarrow> count_list (filter P xs) x = count_list xs x"
  by (induction xs) auto

text \<open>
  Deleting the matching items is determined by three properties: a list that is a
  subsequence of the original, holds no matching item and keeps every other item as often
  as the original has it, is the filtered list.
\<close>

lemma deleted_unique:
  assumes "subseq v w" and "\<forall>item \<in> set v. coinId item \<noteq> cid"
    and "\<forall>item. coinId item \<noteq> cid \<longrightarrow> count_list v item = count_list w item"
  shows "v = filter (\<lambda>item. coinId item \<noteq> cid) w"
proof -
  let ?P = "\<lambda>item. coinId item \<noteq> cid"
  have fv: "filter ?P v = v" using assms(2) by (simp add: filter_id_conv)
  have "subseq (filter ?P v) (filter ?P w)" using assms(1) by (rule subseq_filter)
  hence s: "subseq v (filter ?P w)" by (simp add: fv)
  have "mset v = mset (filter ?P w)"
  proof (rule multiset_eqI)
    fix x
    show "count (mset v) x = count (mset (filter ?P w)) x"
    proof (cases "?P x")
      case True
      thus ?thesis using assms(3) by (simp add: count_mset count_list_filter_keep)
    next
      case False
      hence "x \<notin> set v" using assms(2) by auto
      thus ?thesis using False by (simp add: count_mset count_list_0_iff)
    qed
  qed
  hence "length v = length (filter ?P w)" by (metis size_mset)
  with s show ?thesis by (metis subseq_same_length)
qed

text \<open>
  C4. Add, for a user whose stored watchlist is \<open>w\<close> (the load itself succeeding): when
  \<open>w\<close> holds an item with the given \<open>coinId\<close> the handler answers 400 with the message
  \<open>Coin already in watchlist\<close>, which is not the 500 \<open>Server error\<close> of a fault, never calls
  \<open>save\<close> (whatever \<open>save\<close> would have done) and leaves the store as it was; otherwise,
  \<open>save\<close> succeeding, it stores and returns \<open>w\<close> with the new item appended at the end.
\<close>

theorem add_handler_duplicate_or_append:
  assumes "db uid = Some w"
  shows "(list_ex (\<lambda>item. coinId item = cid) w \<longrightarrow>
            (\<exists>evs. add_handler False save_fault db uid cid cname =
                     (Responded (Response 400 (ErrorBody ''Coin already in watchlist'')), db, evs)
                   \<and> saves evs = 0)
            \<and> Response 400 (ErrorBody ''Coin already in watchlist'') \<noteq>
                (Response 500 (ErrorBody ''Server error'') :: 'p response))
       \<and> (\<not> list_ex (\<lambda>item. coinId item = cid) w \<longrightarrow>
            add_handler False False db uid cid cname =
              (Responded (Response 200
                 (MessageBody ''Added to watchlist'' (w @ [\<lparr>coinId = cid, coinName = cname\<rparr>]))),
               db(uid \<mapsto> w @ [\<lparr>coinId = cid, coinName = cname\<rparr>]), [FindById, Save]))"
  using assms by (simp add: add_handler_def findById_def save_def saves_def Let_def)

theorem add_handler_duplicate_or_append_witness:
  "(Map.empty(1 \<mapsto> [\<lparr>coinId = ''bitcoin'', coinName = ''Bitcoin''\<rparr>])) (1::nat) =
      Some [\<lparr>coinId = ''bitcoin'', coinName = ''Bitcoin''\<rparr>]
   \<and> list_ex (\<lambda>item. coinId item = ''bitcoin'') [\<lparr>coinId = ''bitcoin'', coinName = ''Bitcoin''\<rparr>]
   \<and> add_handler False False (Map.empty(1 \<mapsto> [\<lparr>coinId = ''bitcoin'', coinName = ''Bitcoin''\<rparr>]))
        (1::nat) ''bitcoin'' ''BTC'' =
       (Responded (Response 400 (ErrorBody ''Coin already in watchlist'')) :: nat outcome,
        Map.empty(1 \<mapsto> [\<lparr>coinId = ''bitcoin'', coinName = ''Bitcoin''\<rparr>]), [FindById])
   \<and> \<not> list_ex (\<lambda>item. coinId item = ''ethereum'')
          [\<lparr>coinId = ''bitcoin'', coinName = ''Bitcoin''\<rparr>]
   \<and> add_handler False False (Map.empty(1 \<mapsto> [\<lparr>coinId = ''bitcoin'', coinName = ''Bitcoin''\<rparr>]))
        (1::nat) ''ethereum'' ''Ethereum'' =
       (Responded (Response 200 (MessageBody ''Added to watchlist''
          [\<lparr>coinId = ''bitcoin'', coinName = ''Bitcoin''\<rparr>,
           \<lparr>coinId = ''ethereum'', coinName = ''Ethereum''\<rparr>])) :: nat outcome,
        Map.empty(1 \<mapsto> [\<lparr>coinId = ''bitcoin'', coinName = ''Bitcoin''\<rparr>,
                          \<lparr>coinId = ''ethereum'', coinName = ''Ethereum''\<rparr>]),
        [FindById, Save])"
proof -
  let ?w = "[\<lparr>coinId = ''bitcoin'', coinName = ''Bitcoin''\<rparr>]"
  have h: "(Map.empty(1 \<mapsto> ?w)) (1::nat) = Some ?w" by simp
  have dup: "list_ex (\<lambda>item. coinId item = ''bitcoin'') ?w" by simp
  have new: "\<not> list_ex (\<lambda>item. coinId item = ''ethereum'') ?w" by simp
  note dup_case = add_handler_duplicate_or_append
         [where db = "Map.empty(1 \<mapsto> ?w)" and uid = "1::nat" and w = "?w" and cid = "''bitcoin''"
            and save_fault = False and cname = "''BTC''", OF h]
  note new_case = add_handler_duplicate_or_append
         [where db = "Map.empty(1 \<mapsto> ?w)" and uid = "1::nat" and w = "?w" and cid = "''ethereum''"
            and save_fault = False and cname = "''Ethereum''", OF h]
  from dup_case new_case show ?thesis
    by (simp add: add_handler_def findById_def save_def Let_def)
qed

text \<open>
  C5. Remove of an identifier that the loaded watchlist \<open>w\<close> does not hold (neither
  persistence call faulting): the handler answers 200, and the list it saves and returns
  is \<open>w\<close> itself, so the store is what it was.
\<close>

theorem remove_handler_absent_unchanged:
  assumes "db uid = Some w" and "\<not> list_ex (\<lambda>item. coinId item = cid) w"
  shows "remove_handler False False db uid cid =
           (Responded (Response 200 (MessageBody ''Removed from watchlist'' w)),
            db(uid \<mapsto> w), [FindById, Save])
         \<and> db(uid \<mapsto> w) = db"
  using assms
  by (simp add: remove_handler_def findById_def save_def remove_absent_filter fun_upd_idem Let_def)

theorem remove_handler_absent_unchanged_witness:
  "(Map.empty(1 \<mapsto> [\<lparr>coinId = ''bitcoin'', coinName = ''Bitcoin''\<rparr>])) (1::nat) =
      Some [\<lparr>coinId = ''bitcoin'', coinName = ''Bitcoin''\<rparr>]
   \<and> \<not> list_ex (\<lambda>item. coinId item = ''ethereum'')
          [\<lparr>coinId = ''bitcoin'', coinName = ''Bitcoin''\<rparr>]
   \<and> remove_handler False False (Map.empty(1 \<mapsto> [\<lparr>coinId = ''bitcoin'', coinName = ''Bitcoin''\<rparr>]))
        (1::nat) ''ethereum'' =
       (Responded (Response 200 (MessageBody ''Removed from watchlist''
          [\<lparr>coinId = ''bitcoin'', coinName = ''Bitcoin''\<rparr>])) :: nat outcome,
        Map.empty(1 \<mapsto> [\<lparr>coinId = ''bitcoin'', coinName = ''Bitcoin''\<rparr>]), [FindById, Save])"
proof -
  let ?w = "[\<lparr>coinId = ''bitcoin'', coinName = ''Bitcoin''\<rparr>]"
  have h: "(Map.empty(1 \<mapsto> ?w)) (1::nat) = Some ?w" by simp
  have absent: "\<not> list_ex (\<lambda>item. coinId item = ''ethereum'') ?w" by simp
  note absent_case = remove_handler_absent_unchanged
         [where db = "Map.empty(1 \<mapsto> ?w)" and uid = "1::nat" and w = "?w" and cid = "''ethereum''",
          OF h absent]
  from absent_case show ?thesis by simp
qed

text \<open>
  C9. The uniqueness invariant: if every stored watchlist has pairwise distinct \<open>coinId\<close>
  values, then so has every stored watchlist after Add and after Remove, for every user,
  every argument and every combination of persistence faults.
\<close>

theorem unique_ids_preserved:
  assumes "db_unique db"
  shows "db_unique (fst (snd (add_handler find_fault save_fault db uid cid cname)))
       \<and> db_unique (fst (snd (remove_handler find_fault save_fault db uid cid)))"
proof
  show "db_unique (fst (snd (add_handler find_fault save_fault db uid cid cname)))"
    using assms
    by (auto simp: add_handler_def findById_def save_def Let_def db_unique_def
        intro!: db_unique_upd unique_ids_push split: option.splits)
  show "db_unique (fst (snd (remove_handler find_fault save_fault db uid cid)))"
    using assms
    by (auto simp: remove_handler_def findById_def save_def Let_def db_unique_def
        intro!: db_unique_upd unique_ids_filter split: option.splits)
qed

theorem unique_ids_preserved_witness:
  "db_unique (Map.empty((1::nat) \<mapsto> [\<lparr>coinId = ''bitcoin'', coinName = ''Bitcoin''\<rparr>]))
   \<and> db_unique (fst (snd (add_handler False False
        (Map.empty((1::nat) \<mapsto> [\<lparr>coinId = ''bitcoin'', coinName = ''Bitcoin''\<rparr>]))
        1 ''ethereum'' ''Ethereum'' :: nat outcome \<times> nat db \<times> event list)))
   \<and> db_unique (fst (snd (remove_handler False False
        (Map.empty((1::nat) \<mapsto> [\<lparr>coinId = ''bitcoin'', coinName = ''Bitcoin''\<rparr>]))
        1 ''bitcoin'' :: nat outcome \<times> nat db \<times> event list)))
   \<and> fst (snd (add_handler False False
        (Map.empty((1::nat) \<mapsto> [\<lparr>coinId = ''bitcoin'', coinName = ''Bitcoin''\<rparr>]))
        1 ''ethereum'' ''Ethereum'' :: nat outcome \<times> nat db \<times> event list)) 1 =
      Some [\<lparr>coinId = ''bitcoin'', coinName = ''Bitcoin''\<rparr>,
            \<lparr>coinId = ''ethereum'', coinName = ''Ethereum''\<rparr>]"
proof -
  let ?db = "Map.empty((1::nat) \<mapsto> [\<lparr>coinId = ''bitcoin'', coinName = ''Bitcoin''\<rparr>])"
  have h: "db_unique ?db" by (simp add: db_unique_def unique_ids_def)
  have v: "fst (snd (add_handler False False ?db 1 ''ethereum'' ''Ethereum''
             :: nat outcome \<times> nat db \<times> event list)) 1 =
      Some [\<lparr>coinId = ''bitcoin'', coinName = ''Bitcoin''\<rparr>,
            \<lparr>coinId = ''ethereum'', coinName = ''Ethereum''\<rparr>]"
    by (simp add: add_handler_def findById_def save_def Let_def)
  note a = unique_ids_preserved [OF h, of False False 1 "''ethereum''" "''Ethereum''", THEN conjunct1]
  note r = unique_ids_preserved [OF h, of False False 1 "''bitcoin''" "''Bitcoin''", THEN conjunct2]
  from a r h v show ?thesis by simp
qed

text \<open>
  C10. Remove, for a user whose stored watchlist is \<open>w\<close> (neither persistence call
  faulting), stores and returns the list \<open>w'\<close> that is \<open>w\<close> with all items of the given
  \<open>coinId\<close> deleted: no item of \<open>w'\<close> has that \<open>coinId\<close> (also when \<open>w\<close> held several),
  \<open>w'\<close> is a subsequence of \<open>w\<close> (the order of what remains is kept), every other item
  occurs in \<open>w'\<close> as often as in \<open>w\<close>, and \<open>w'\<close> is the only list with these properties.
\<close>

theorem remove_handler_deletes_all_matching:
  assumes "db uid = Some w"
  shows "\<exists>w'. remove_handler False False db uid cid =
           (Responded (Response 200 (MessageBody ''Removed from watchlist'' w')),
            db(uid \<mapsto> w'), [FindById, Save])
         \<and> w' = filter (\<lambda>item. coinId item \<noteq> cid) w
         \<and> (\<forall>item \<in> set w'. coinId item \<noteq> cid)
         \<and> subseq w' w
         \<and> (\<forall>item. coinId item \<noteq> cid \<longrightarrow> count_list w' item = count_list w item)
         \<and> (\<forall>v. subseq v w \<and> (\<forall>item \<in> set v. coinId item \<noteq> cid)
                 \<and> (\<forall>item. coinId item \<noteq> cid \<longrightarrow> count_list v item = count_list w item)
               \<longrightarrow> v = w')"
proof (intro exI conjI)
  let ?w' = "filter (\<lambda>item. coinId item \<noteq> cid) w"
  show "remove_handler False False db uid cid =
           (Responded (Response 200 (MessageBody ''Removed from watchlist'' ?w')),
            db(uid \<mapsto> ?w'), [FindById, Save])"
    using assms by (simp add: remove_handler_def findById_def save_def Let_def)
  show "?w' = filter (\<lambda>item. coinId item \<noteq> cid) w" by (rule refl)
  show "\<forall>item \<in> set ?w'. coinId item \<noteq> cid" by simp
  show "subseq ?w' w" by simp
  show "\<forall>item. coinId item \<noteq> cid \<longrightarrow> count_list ?w' item = count_list w item"
    by (simp add: count_list_filter_keep)
  show "\<forall>v. subseq v w \<and> (\<forall>item \<in> set v. coinId item \<noteq> cid)
                 \<and> (\<forall>item. coinId item \<noteq> cid \<longrightarrow> count_list v item = count_list w item)
               \<longrightarrow> v = ?w'"
    using deleted_unique by blast
qed

theorem remove_handler_deletes_all_matching_witness:
  "(Map.empty(1 \<mapsto> [\<lparr>coinId = ''btc'', coinName = ''A''\<rparr>, \<lparr>coinId = ''eth'', coinName = ''B''\<rparr>,
                     \<lparr>coinId = ''btc'', coinName = ''C''\<rparr>, \<lparr>coinId = ''ada'', coinName = ''D''\<rparr>]))
      (1::nat) =
     Some [\<lparr>coinId = ''btc'', coinName = ''A''\<rparr>, \<lparr>coinId = ''eth'', coinName = ''B''\<rparr>,
           \<lparr>coinId = ''btc'', coinName = ''C''\<rparr>, \<lparr>coinId = ''ada'', coinName = ''D''\<rparr>]
   \<and> remove_handler False False
       (Map.empty(1 \<mapsto> [\<lparr>coinId = ''btc'', coinName = ''A''\<rparr>, \<lparr>coinId = ''eth'', coinName = ''B''\<rparr>,
                         \<lparr>coinId = ''btc'', coinName = ''C''\<rparr>, \<lparr>coinId = ''ada'', coinName = ''D''\<rparr>]))
       (1::nat) ''btc'' =
      (Responded (Response 200 (MessageBody ''Removed from watchlist''
         [\<lparr>coinId = ''eth'', coinName = ''B''\<rparr>, \<lparr>coinId = ''ada'', coinName = ''D''\<rparr>]))
         :: nat outcome,
       Map.empty(1 \<mapsto> [\<lparr>coinId = ''eth'', coinName = ''B''\<rparr>, \<lparr>coinId = ''ada'', coinName = ''D''\<rparr>]),
       [FindById, Save])"
proof -
  let ?w = "[\<lparr>coinId = ''btc'', coinName = ''A''\<rparr>, \<lparr>coinId = ''eth'', coinName = ''B''\<rparr>,
             \<lparr>coinId = ''btc'', coinName = ''C''\<rparr>, \<lparr>coinId = ''ada'', coinName = ''D''\<rparr>]"
  have h: "(Map.empty(1 \<mapsto> ?w)) (1::nat) = Some ?w" by simp
  note r = remove_handler_deletes_all_matching
         [where db = "Map.empty(1 \<mapsto> ?w)" and uid = "1::nat" and w = "?w" and cid = "''btc''", OF h]
  from r show ?thesis by (simp add: remove_handler_def findById_def save_def Let_def)
qed

section \<open>The aggregate snapshot\<close>

text \<open>
  What the top-coins handler does, in terms of its own test \<^verbatim>\<open>topCache.data\<close>. If the
  cached payload is truthy and \<open>now - cachedAt < 30000\<close>, the handler answers 200 with it,
  makes no upstream call and leaves the cache as it is. Otherwise it makes exactly one
  upstream call; when that call succeeds with payload \<open>p\<close>, whatever \<open>p\<close> is, the cache
  becomes the new entry holding \<open>p\<close> and the clock value read at the store (\<open>now'\<close>, the
  second \<^verbatim>\<open>Date.now()\<close>), and the handler answers 200 with \<open>p\<close>.
\<close>

theorem top_handler_fresh_or_refresh:
  "(truthy (data c) \<and> now - cachedAt c < 30000 \<longrightarrow>
      (\<exists>evs. top_handler now now' up c = (Responded (Response 200 (Json (data c))), c, evs)
             \<and> upstream_calls evs = 0))
   \<and> (\<not> (truthy (data c) \<and> now - cachedAt c < 30000) \<longrightarrow>
      (\<exists>out c' evs. top_handler now now' up c = (out, c', evs)
         \<and> upstream_calls evs = 1
         \<and> (\<forall>p. up = Resolved p \<longrightarrow>
               out = Responded (Response 200 (Json p))
               \<and> c' = \<lparr>data = p, cachedAt = now'\<rparr>)))"
  by (auto simp: top_handler_def upstream_calls_def split: upstream.splits)

theorem top_handler_fresh_or_refresh_witness:
  "truthy (data \<lparr>data = JArr [JNum (1::int), JNum 2], cachedAt = 1000\<rparr>)
   \<and> (20000::int) - cachedAt \<lparr>data = JArr [JNum (1::int), JNum 2], cachedAt = 1000\<rparr> < 30000
   \<and> top_handler 20000 20100 (Resolved (JArr [JNum 7]))
        \<lparr>data = JArr [JNum (1::int), JNum 2], cachedAt = 1000\<rparr> =
       (Responded (Response 200 (Json (JArr [JNum 1, JNum 2]))),
        \<lparr>data = JArr [JNum 1, JNum 2], cachedAt = 1000\<rparr>, [])
   \<and> \<not> (truthy (data \<lparr>data = JArr [JNum (1::int), JNum 2], cachedAt = 1000\<rparr>)
          \<and> (31000::int) - cachedAt \<lparr>data = JArr [JNum (1::int), JNum 2], cachedAt = 1000\<rparr>
              < 30000)
   \<and> top_handler 31000 31100 (Resolved (JArr [JNum 7]))
        \<lparr>data = JArr [JNum (1::int), JNum 2], cachedAt = 1000\<rparr> =
       (Responded (Response 200 (Json (JArr [JNum 7]))),
        \<lparr>data = JArr [JNum 7], cachedAt = 31100\<rparr>, [UpstreamGet top_url])
   \<and> top_handler 5 9 (Resolved (JArr [JNum (7::int)])) topCache_init =
       (Responded (Response 200 (Json (JArr [JNum 7]))),
        \<lparr>data = JArr [JNum 7], cachedAt = 9\<rparr>, [UpstreamGet top_url])"
proof -
  let ?c = "\<lparr>data = JArr [JNum (1::int), JNum 2], cachedAt = 1000\<rparr>"
  note fresh = top_handler_fresh_or_refresh
    [where c = "?c" and now = 20000 and now' = 20100 and up = "Resolved (JArr [JNum 7])",
     THEN conjunct1]
  note stale = top_handler_fresh_or_refresh
    [where c = "?c" and now = 31000 and now' = 31100 and up = "Resolved (JArr [JNum 7])",
     THEN conjunct2]
  note cold = top_handler_fresh_or_refresh
    [where c = "topCache_init :: int top_cache" and now = 5 and now' = 9
       and up = "Resolved (JArr [JNum 7])", THEN conjunct2]
  from fresh stale cold show ?thesis
    by (simp add: top_handler_def topCache_init_def)
qed

text \<open>
  When the upstream call fails: a truthy cached payload is answered with 200 for every
  clock value, however old the entry (with an upstream call exactly when the entry is not
  fresh), and the cache is unchanged; a falsy one, \<open>null\<close> included, gives 500 with the
  fixed message \<open>Failed to fetch crypto data\<close>, the cache unchanged.
\<close>

theorem top_handler_upstream_failure:
  "(truthy (data c) \<longrightarrow>
      top_handler now now' Failed c =
        (Responded (Response 200 (Json (data c))), c,
         if now - cachedAt c < 30000 then [] else [UpstreamGet top_url]))
   \<and> (\<not> truthy (data c) \<longrightarrow>
      top_handler now now' Failed c =
        (Responded (Response 500 (ErrorBody ''Failed to fetch crypto data'')), c,
         [UpstreamGet top_url]))"
  by (auto simp: top_handler_def)

theorem top_handler_upstream_failure_witness:
  "truthy (data \<lparr>data = JArr [JNum (1::int), JNum 2], cachedAt = 1000\<rparr>)
   \<and> top_handler 900000000 900000001 Failed
        \<lparr>data = JArr [JNum (1::int), JNum 2], cachedAt = 1000\<rparr> =
       (Responded (Response 200 (Json (JArr [JNum 1, JNum 2]))),
        \<lparr>data = JArr [JNum 1, JNum 2], cachedAt = 1000\<rparr>, [UpstreamGet top_url])
   \<and> \<not> truthy (data (topCache_init :: int top_cache))
   \<and> top_handler 5 9 Failed (topCache_init :: int top_cache) =
       (Responded (Response 500 (ErrorBody ''Failed to fetch crypto data'')), topCache_init,
        [UpstreamGet top_url])"
proof -
  let ?c = "\<lparr>data = JArr [JNum (1::int), JNum 2], cachedAt = 1000\<rparr>"
  note stale = top_handler_upstream_failure
    [where c = "?c" and now = 900000000 and now' = 900000001, THEN conjunct1]
  note cold = top_handler_upstream_failure
    [where c = "topCache_init :: int top_cache" and now = 5 and now' = 9, THEN conjunct2]
  from stale cold show ?thesis
    by (simp add: topCache_init_def)
qed

text \<open>
  C1. The specification asks that an entry which exists and is younger than 30000 ms is
  answered from the cache with no upstream call. An upstream call that succeeds with the
  empty string as payload (an empty body) stores the entry \<^verbatim>\<open>{ data: '', cachedAt: 1000 }\<close>
  and answers 200 with it. For a second request at time 2000, inside the window, the test
  \<^verbatim>\<open>topCache.data && ...\<close> finds the empty string falsy: the handler calls upstream again
  and replaces the entry. The watchlist handler tests the entry object, not its payload,
  and does not have this case.
\<close>

theorem top_handler_falsy_payload_refetched:
  "top_handler 0 1000 (Resolved (JStr [])) (topCache_init :: int top_cache) =
     (Responded (Response 200 (Json (JStr []))), \<lparr>data = JStr [], cachedAt = 1000\<rparr>,
      [UpstreamGet top_url])
   \<and> (2000::int) - cachedAt \<lparr>data = JStr [] :: int json, cachedAt = 1000\<rparr> < 30000
   \<and> top_handler 2000 2100 (Resolved (JArr [JNum 7]))
        \<lparr>data = JStr [] :: int json, cachedAt = 1000\<rparr> =
     (Responded (Response 200 (Json (JArr [JNum 7]))),
      \<lparr>data = JArr [JNum 7], cachedAt = 2100\<rparr>, [UpstreamGet top_url])
   \<and> upstream_calls [UpstreamGet top_url] = 1"
  by (simp add: top_handler_def topCache_init_def upstream_calls_def)

text \<open>
  C2. The specification asks that, when the upstream call fails, the payload of any
  existing entry is answered rather than an error. With the entry
  \<^verbatim>\<open>{ data: '', cachedAt: 1000 }\<close> stored by an earlier successful call, and the upstream
  call of a later request failing, \<^verbatim>\<open>if (topCache.data)\<close> in the \<^verbatim>\<open>catch\<close> block finds the
  empty string falsy and the handler answers 500. The same holds for the stored payloads
  \<open>0\<close>, \<open>false\<close> and \<open>null\<close>.
\<close>

theorem top_handler_falsy_payload_answers_500:
  "top_handler 0 1000 (Resolved (JStr [])) (topCache_init :: int top_cache) =
     (Responded (Response 200 (Json (JStr []))), \<lparr>data = JStr [], cachedAt = 1000\<rparr>,
      [UpstreamGet top_url])
   \<and> top_handler 2000 2100 Failed \<lparr>data = JStr [] :: int json, cachedAt = 1000\<rparr> =
     (Responded (Response 500 (ErrorBody ''Failed to fetch crypto data'')),
      \<lparr>data = JStr [], cachedAt = 1000\<rparr>, [UpstreamGet top_url])
   \<and> top_handler 2000 2100 Failed \<lparr>data = JNum (0::int), cachedAt = 1000\<rparr> =
     (Responded (Response 500 (ErrorBody ''Failed to fetch crypto data'')),
      \<lparr>data = JNum 0, cachedAt = 1000\<rparr>, [UpstreamGet top_url])
   \<and> top_handler 2000 2100 Failed \<lparr>data = JBool False :: int json, cachedAt = 1000\<rparr> =
     (Responded (Response 500 (ErrorBody ''Failed to fetch crypto data'')),
      \<lparr>data = JBool False, cachedAt = 1000\<rparr>, [UpstreamGet top_url])"
  by (simp add: top_handler_def topCache_init_def)

section \<open>The watchlist view\<close>

lemma sort_mset_eq: "mset xs = mset ys \<Longrightarrow> sort xs = sort (ys :: string list)"
  by (metis properties_for_sort sorted_sort mset_sort)

lemma cache_key_perm:
  assumes "mset (map coinId w1) = mset (map coinId w2)"
  shows "cache_key w1 = cache_key w2"
  unfolding cache_key_def using sort_mset_eq [OF assms] by simp

lemma cache_get_put: "cache_get (cache_put c k e) k = SlotEntry e"
  by (simp add: cache_get_def cache_put_def)

lemma list_handler_populates:
  assumes "w \<noteq> []"
    and "list_handler (Returned (Some w)) found' t t' (Resolved p) c = (out, c1, evs)"
  shows "\<exists>e. cache_get c1 (cache_key w) = SlotEntry e
             \<and> out = Responded (Response 200 (Json (data e)))"
proof (cases "cache_get c (cache_key w)")
  case (SlotEntry e0)
  show ?thesis
  proof (cases "t - cachedAt e0 < 30000")
    case True
    with assms SlotEntry show ?thesis
      by (auto simp: list_handler_def list_try_def Let_def)
  next
    case False
    with assms SlotEntry show ?thesis
      by (auto simp: list_handler_def list_try_def list_fetch_def Let_def cache_get_put)
  qed
next
  case SlotUndefined
  with assms show ?thesis
    by (auto simp: list_handler_def list_try_def list_fetch_def Let_def cache_get_put)
next
  case SlotForeign
  with assms show ?thesis
    by (auto simp: list_handler_def list_try_def list_fetch_def Let_def cache_get_put)
qed

lemma list_handler_hit:
  assumes "w \<noteq> []" and "cache_get c (cache_key w) = SlotEntry e"
    and "now - cachedAt e < 30000"
  shows "list_handler (Returned (Some w)) found' now now' up c =
           (Responded (Response 200 (Json (data e))), c, [FindById, CacheRead (cache_key w)])"
  using assms by (simp add: list_handler_def list_try_def Let_def)

text \<open>
  Joining a non-empty list puts the separator between consecutive elements and nowhere
  else: with one more separator at the end, the result is every element followed by the
  separator.
\<close>

lemma join_concat:
  "xs \<noteq> [] \<Longrightarrow> concat (map (\<lambda>k. k @ sep) xs) = join sep xs @ sep"
  by (induction sep xs rule: join.induct) simp_all

text \<open>
  C3. The cache key of a watchlist is its identifiers in ascending order, each two
  neighbours separated by one comma: there is a sorted list \<open>ks\<close> holding exactly the
  identifiers of the watchlist, and the key followed by a comma is every element of \<open>ks\<close>
  followed by a comma. Two watchlists naming the same identifiers in any orders have the
  same key. After a request for the first ordering whose upstream call (if one is made)
  succeeds, the cache holds an entry \<open>e\<close> under that key and the request answered with its
  payload; every request for the other ordering at a time \<open>now\<close> with
  \<open>now - cachedAt e < 30000\<close> is answered 200 with that same payload, with no upstream
  call and the cache unchanged.
\<close>

theorem cache_key_order_independent:
  assumes "mset (map coinId w1) = mset (map coinId w2)" and "w1 \<noteq> []"
    and "list_handler (Returned (Some w1)) found1 t t' (Resolved p) c = (out1, c1, evs1)"
  shows "(\<exists>ks. sorted ks \<and> mset ks = mset (map coinId w1)
              \<and> concat (map (\<lambda>k. k @ '','') ks) = cache_key w1 @ '','')
       \<and> cache_key w1 = cache_key w2
       \<and> (\<exists>e. cache_get c1 (cache_key w2) = SlotEntry e
              \<and> out1 = Responded (Response 200 (Json (data e)))
              \<and> (\<forall>now now' found2 up. now - cachedAt e < 30000 \<longrightarrow>
                    (\<exists>evs2. list_handler (Returned (Some w2)) found2 now now' up c1 =
                              (Responded (Response 200 (Json (data e))), c1, evs2)
                            \<and> upstream_calls evs2 = 0)))"
proof -
  have form: "\<exists>ks. sorted ks \<and> mset ks = mset (map coinId w1)
                \<and> concat (map (\<lambda>k. k @ '','') ks) = cache_key w1 @ '',''"
  proof (intro exI conjI)
    show "sorted (sort (map coinId w1))" by simp
    show "mset (sort (map coinId w1)) = mset (map coinId w1)" by simp
    have "sort (map coinId w1) \<noteq> []"
      using assms(2) by (metis length_0_conv length_map length_sort)
    thus "concat (map (\<lambda>k. k @ '','') (sort (map coinId w1))) = cache_key w1 @ '',''"
      unfolding cache_key_def by (rule join_concat)
  qed
  have k: "cache_key w1 = cache_key w2" using assms(1) by (rule cache_key_perm)
  have ne2: "w2 \<noteq> []" using assms(1,2) by auto
  from list_handler_populates [OF assms(2,3)] obtain e where
    e: "cache_get c1 (cache_key w2) = SlotEntry e"
       "out1 = Responded (Response 200 (Json (data e)))" unfolding k by blast
  have "upstream_calls [FindById, CacheRead (cache_key w2)] = 0"
    by (simp add: upstream_calls_def)
  hence served: "\<forall>now now' found2 up. now - cachedAt e < 30000 \<longrightarrow>
          (\<exists>evs2. list_handler (Returned (Some w2)) found2 now now' up c1 =
                    (Responded (Response 200 (Json (data e))), c1, evs2)
                  \<and> upstream_calls evs2 = 0)"
    by (simp add: list_handler_hit [OF ne2 e(1)])
  from e served have "\<exists>e. cache_get c1 (cache_key w2) = SlotEntry e
              \<and> out1 = Responded (Response 200 (Json (data e)))
              \<and> (\<forall>now now' found2 up. now - cachedAt e < 30000 \<longrightarrow>
                    (\<exists>evs2. list_handler (Returned (Some w2)) found2 now now' up c1 =
                              (Responded (Response 200 (Json (data e))), c1, evs2)
                            \<and> upstream_calls evs2 = 0))"
    by blast
  with form k show ?thesis by (intro conjI)
qed

theorem cache_key_order_independent_witness:
  "mset (map coinId [\<lparr>coinId = ''eth'', coinName = ''Ethereum''\<rparr>,
                     \<lparr>coinId = ''btc'', coinName = ''Bitcoin''\<rparr>,
                     \<lparr>coinId = ''ada'', coinName = ''Cardano''\<rparr>]) =
     mset (map coinId [\<lparr>coinId = ''ada'', coinName = ''Cardano''\<rparr>,
                       \<lparr>coinId = ''eth'', coinName = ''Ethereum''\<rparr>,
                       \<lparr>coinId = ''btc'', coinName = ''Bitcoin''\<rparr>])
   \<and> [\<lparr>coinId = ''eth'', coinName = ''Ethereum''\<rparr>, \<lparr>coinId = ''btc'', coinName = ''Bitcoin''\<rparr>,
       \<lparr>coinId = ''ada'', coinName = ''Cardano''\<rparr>] \<noteq> []
   \<and> list_handler
        (Returned (Some [\<lparr>coinId = ''eth'', coinName = ''Ethereum''\<rparr>,
                         \<lparr>coinId = ''btc'', coinName = ''Bitcoin''\<rparr>,
                         \<lparr>coinId = ''ada'', coinName = ''Cardano''\<rparr>]))
        Threw 1000 1200 (Resolved [7::nat]) watchlistCache_init =
       (Responded (Response 200 (Json [7])),
        cache_put watchlistCache_init ''ada,btc,eth'' \<lparr>data = [7], cachedAt = 1200\<rparr>,
        [FindById, CacheRead ''ada,btc,eth'', UpstreamGet (watchlist_url ''ada,btc,eth''),
         CacheWrite ''ada,btc,eth''])
   \<and> cache_key [\<lparr>coinId = ''eth'', coinName = ''Ethereum''\<rparr>,
                 \<lparr>coinId = ''btc'', coinName = ''Bitcoin''\<rparr>,
                 \<lparr>coinId = ''ada'', coinName = ''Cardano''\<rparr>] = ''ada,btc,eth''
   \<and> cache_key [\<lparr>coinId = ''ada'', coinName = ''Cardano''\<rparr>,
                 \<lparr>coinId = ''eth'', coinName = ''Ethereum''\<rparr>,
                 \<lparr>coinId = ''btc'', coinName = ''Bitcoin''\<rparr>] = ''ada,btc,eth''
   \<and> (\<exists>evs2. list_handler
        (Returned (Some [\<lparr>coinId = ''ada'', coinName = ''Cardano''\<rparr>,
                         \<lparr>coinId = ''eth'', coinName = ''Ethereum''\<rparr>,
                         \<lparr>coinId = ''btc'', coinName = ''Bitcoin''\<rparr>]))
        Threw 20000 20001 Failed
        (cache_put watchlistCache_init ''ada,btc,eth'' \<lparr>data = [7::nat], cachedAt = 1200\<rparr>) =
       (Responded (Response 200 (Json [7])),
        cache_put watchlistCache_init ''ada,btc,eth'' \<lparr>data = [7], cachedAt = 1200\<rparr>, evs2)
       \<and> upstream_calls evs2 = 0)"
proof -
  let ?w1 = "[\<lparr>coinId = ''eth'', coinName = ''Ethereum''\<rparr>,
              \<lparr>coinId = ''btc'', coinName = ''Bitcoin''\<rparr>,
              \<lparr>coinId = ''ada'', coinName = ''Cardano''\<rparr>]"
  let ?w2 = "[\<lparr>coinId = ''ada'', coinName = ''Cardano''\<rparr>,
              \<lparr>coinId = ''eth'', coinName = ''Ethereum''\<rparr>,
              \<lparr>coinId = ''btc'', coinName = ''Bitcoin''\<rparr>]"
  let ?c1 = "cache_put watchlistCache_init ''ada,btc,eth'' \<lparr>data = [7::nat], cachedAt = 1200\<rparr>"
  have h1: "mset (map coinId ?w1) = mset (map coinId ?w2)" by simp
  have h2: "?w1 \<noteq> []" by simp
  have k1: "cache_key ?w1 = ''ada,btc,eth''" by (simp add: cache_key_def)
  have k2: "cache_key ?w2 = ''ada,btc,eth''" by (simp add: cache_key_def)
  have h3: "list_handler (Returned (Some ?w1)) Threw 1000 1200 (Resolved [7::nat])
              watchlistCache_init =
            (Responded (Response 200 (Json [7])), ?c1,
             [FindById, CacheRead ''ada,btc,eth'', UpstreamGet (watchlist_url ''ada,btc,eth''),
              CacheWrite ''ada,btc,eth''])"
    by (simp add: list_handler_def list_try_def list_fetch_def Let_def k1 cache_get_def
        watchlistCache_init_def inherited_def object_prototype_names_def)
  from cache_key_order_independent [OF h1 h2 h3] obtain e where
    e: "cache_get ?c1 (cache_key ?w2) = SlotEntry e"
    and served: "\<And>now now' found2 up. now - cachedAt e < 30000 \<Longrightarrow>
          \<exists>evs2. list_handler (Returned (Some ?w2)) found2 now now' up ?c1 =
                   (Responded (Response 200 (Json (data e))), ?c1, evs2)
                 \<and> upstream_calls evs2 = 0"
    by (elim conjE exE) simp
  from e have e': "e = \<lparr>data = [7], cachedAt = 1200\<rparr>"
    by (simp add: k2 cache_get_put)
  have "\<exists>evs2. list_handler (Returned (Some ?w2)) Threw 20000 20001 Failed ?c1 =
                   (Responded (Response 200 (Json (data e))), ?c1, evs2)
                 \<and> upstream_calls evs2 = 0"
    by (rule served) (simp add: e')
  with h1 h2 h3 k1 k2 show ?thesis by (simp add: e')
qed

text \<open>
  C6. The watchlist view of a user whose watchlist is empty: the handler answers 200 with
  the empty array at once. The only effect is the load of the user: no cache read, no
  upstream call, the cache unchanged; and the answer is not the 500 of an upstream failure.
\<close>

theorem list_handler_empty_watchlist:
  "(\<exists>evs. list_handler (Returned (Some [])) found' now now' up c =
            (Responded (Response 200 (Json [])), c, evs)
          \<and> evs = [FindById] \<and> cache_reads evs = 0 \<and> upstream_calls evs = 0)
   \<and> Response 200 (Json []) \<noteq>
       (Response 500 (ErrorBody ''Failed to fetch watchlist data'') :: 'r list response)"
  by (simp add: list_handler_def list_try_def cache_reads_def upstream_calls_def)

text \<open>
  C7. The watchlist view when the upstream call fails and the second load returns the
  watchlist. The specification asks for the entry stored under the key of the re-read
  watchlist, or the 500 answer when no entry is stored there. For the watchlist of the single
  identifier \<open>constructor\<close> and a cache in which nothing was ever stored, the read
  \<^verbatim>\<open>watchlistCache[coinIdsKey]\<close> yields the function inherited from \<^verbatim>\<open>Object.prototype\<close>,
  \<^verbatim>\<open>if (stale)\<close> passes, and the handler answers 200 with \<^verbatim>\<open>stale.data\<close>, which is
  \<open>undefined\<close>, instead of 500.
\<close>

theorem list_handler_inherited_key_answers_200:
  "list_handler
      (Returned (Some [\<lparr>coinId = ''constructor'', coinName = ''C''\<rparr>]))
      (Returned (Some [\<lparr>coinId = ''constructor'', coinName = ''C''\<rparr>]))
      1000 1200 Failed (watchlistCache_init :: nat watchlist_cache) =
    (Responded (Response 200 UndefinedBody), watchlistCache_init,
     [FindById, CacheRead ''constructor'', UpstreamGet (watchlist_url ''constructor''),
      FindById, CacheRead ''constructor''])"
  by (simp add: list_handler_def list_try_def list_catch_def list_fetch_def cache_key_def Let_def
      cache_get_def watchlistCache_init_def inherited_def object_prototype_names_def)

text \<open>
  C8. The specification asks every handler to answer on every combination of failures,
  also when the failure is raised in the fallback path of the watchlist view. For a user
  watching \<open>bitcoin\<close>, an empty cache, a failing upstream call and a failing second
  \<^verbatim>\<open>User.findById\<close> (awaited inside the \<^verbatim>\<open>catch\<close> block), the exception leaves the handler,
  which sends no response.
\<close>

theorem list_handler_fallback_read_rejects:
  "list_handler
      (Returned (Some [\<lparr>coinId = ''bitcoin'', coinName = ''Bitcoin''\<rparr>])) Threw
      1000 1200 Failed (watchlistCache_init :: nat watchlist_cache) =
    (Rejected, watchlistCache_init,
     [FindById, CacheRead ''bitcoin'', UpstreamGet (watchlist_url ''bitcoin''), FindById])"
  by (simp add: list_handler_def list_try_def list_catch_def list_fetch_def cache_key_def Let_def
      cache_get_def watchlistCache_init_def inherited_def object_prototype_names_def)

section \<open>Further properties of the handlers\<close>

text \<open>
  The fallback of the watchlist view as the code has it. When the first load returns a
  non-empty watchlist \<open>w\<close> whose key holds no fresh entry, the upstream call fails and the
  second load returns \<open>w2\<close>, the handler reads the cache under the key of \<open>w2\<close> (not of
  \<open>w\<close>) and answers from that read alone: 200 with the payload of the entry stored there,
  whatever its age; 500 with \<open>Failed to fetch watchlist data\<close> when the read is
  \<open>undefined\<close>; 200 with \<open>undefined\<close> when the read is an inherited value. The cache is
  unchanged, and the body is never the watchlist.
\<close>

theorem list_handler_upstream_failure:
  assumes "w \<noteq> []"
    and "\<forall>e. cache_get c (cache_key w) = SlotEntry e \<longrightarrow> \<not> now - cachedAt e < 30000"
  shows "list_handler (Returned (Some w)) (Returned (Some w2)) now now' Failed c =
           ((case cache_get c (cache_key w2) of
               SlotEntry stale \<Rightarrow> Responded (Response 200 (Json (data stale)))
             | SlotForeign \<Rightarrow> Responded (Response 200 UndefinedBody)
             | SlotUndefined \<Rightarrow>
                 Responded (Response 500 (ErrorBody ''Failed to fetch watchlist data''))),
            c,
            [FindById, CacheRead (cache_key w), UpstreamGet (watchlist_url (cache_key w)),
             FindById, CacheRead (cache_key w2)])
         \<and> (\<forall>m l. fst (list_handler (Returned (Some w)) (Returned (Some w2)) now now' Failed c)
                \<noteq> Responded (Response 200 (MessageBody m l)))"
proof (cases "cache_get c (cache_key w)")
  case (SlotEntry e)
  with assms show ?thesis
    by (cases "cache_get c (cache_key w2)")
       (simp_all add: list_handler_def list_try_def list_catch_def list_fetch_def Let_def)
next
  case SlotUndefined
  with assms show ?thesis
    by (cases "cache_get c (cache_key w2)")
       (simp_all add: list_handler_def list_try_def list_catch_def list_fetch_def Let_def)
next
  case SlotForeign
  with assms show ?thesis
    by (cases "cache_get c (cache_key w2)")
       (simp_all add: list_handler_def list_try_def list_catch_def list_fetch_def Let_def)
qed

theorem list_handler_upstream_failure_witness:
  "[\<lparr>coinId = ''btc'', coinName = ''Bitcoin''\<rparr>] \<noteq> []
   \<and> cache_get (cache_put watchlistCache_init ''btc,eth'' \<lparr>data = [7::nat], cachedAt = 1200\<rparr>)
        (cache_key [\<lparr>coinId = ''btc'', coinName = ''Bitcoin''\<rparr>]) = SlotUndefined
   \<and> list_handler
        (Returned (Some [\<lparr>coinId = ''btc'', coinName = ''Bitcoin''\<rparr>]))
        (Returned (Some [\<lparr>coinId = ''eth'', coinName = ''Ethereum''\<rparr>,
                         \<lparr>coinId = ''btc'', coinName = ''Bitcoin''\<rparr>]))
        900000000 900000001 Failed
        (cache_put watchlistCache_init ''btc,eth'' \<lparr>data = [7::nat], cachedAt = 1200\<rparr>) =
       (Responded (Response 200 (Json [7])),
        cache_put watchlistCache_init ''btc,eth'' \<lparr>data = [7], cachedAt = 1200\<rparr>,
        [FindById, CacheRead ''btc'', UpstreamGet (watchlist_url ''btc''),
         FindById, CacheRead ''btc,eth''])
   \<and> list_handler
        (Returned (Some [\<lparr>coinId = ''btc'', coinName = ''Bitcoin''\<rparr>]))
        (Returned (Some [\<lparr>coinId = ''btc'', coinName = ''Bitcoin''\<rparr>]))
        900000000 900000001 Failed
        (cache_put watchlistCache_init ''btc,eth'' \<lparr>data = [7::nat], cachedAt = 1200\<rparr>) =
       (Responded (Response 500 (ErrorBody ''Failed to fetch watchlist data'')),
        cache_put watchlistCache_init ''btc,eth'' \<lparr>data = [7], cachedAt = 1200\<rparr>,
        [FindById, CacheRead ''btc'', UpstreamGet (watchlist_url ''btc''),
         FindById, CacheRead ''btc''])"
proof -
  let ?w = "[\<lparr>coinId = ''btc'', coinName = ''Bitcoin''\<rparr>]"
  let ?w2 = "[\<lparr>coinId = ''eth'', coinName = ''Ethereum''\<rparr>,
              \<lparr>coinId = ''btc'', coinName = ''Bitcoin''\<rparr>]"
  let ?c = "cache_put watchlistCache_init ''btc,eth'' \<lparr>data = [7::nat], cachedAt = 1200\<rparr>"
  have k: "cache_key ?w = ''btc''" by (simp add: cache_key_def)
  have k2: "cache_key ?w2 = ''btc,eth''" by (simp add: cache_key_def)
  have miss: "cache_get ?c ''btc'' = SlotUndefined"
    by (simp add: cache_get_def cache_put_def watchlistCache_init_def inherited_def
        object_prototype_names_def)
  have h1: "?w \<noteq> []" by simp
  have h2: "\<forall>e. cache_get ?c (cache_key ?w) = SlotEntry e \<longrightarrow>
              \<not> 900000000 - cachedAt e < 30000"
    by (simp add: k miss)
  note moved = list_handler_upstream_failure
    [where w = "?w" and c = "?c" and now = 900000000 and now' = 900000001 and ?w2.0 = "?w2",
     OF h1 h2, THEN conjunct1]
  note same = list_handler_upstream_failure
    [where w = "?w" and c = "?c" and now = 900000000 and now' = 900000001 and ?w2.0 = "?w",
     OF h1 h2, THEN conjunct1]
  from moved same h1 show ?thesis
    by (simp add: k k2 miss cache_get_put)
qed

text \<open>
  The handlers other than the watchlist view answer on every input: the top-coins fetch
  and the coin detail with 200 or 500, Add with 200, 400 or 500, Remove with 200 or 500,
  for every combination of upstream and persistence faults.
\<close>

theorem handlers_always_respond:
  "(\<exists>st b. fst (top_handler now now' up c) = Responded (Response st b) \<and> st \<in> {200, 500})
   \<and> (\<exists>st b. fst (coin_handler cid0 up0) = Responded (Response st b) \<and> st \<in> {200, 500})
   \<and> (\<exists>st b. fst (add_handler find_fault save_fault db uid cid cname) =
                Responded (Response st b) \<and> st \<in> {200, 400, 500})
   \<and> (\<exists>st b. fst (remove_handler find_fault save_fault db uid cid) =
                Responded (Response st b) \<and> st \<in> {200, 500})"
proof (intro conjI)
  show "\<exists>st b. fst (top_handler now now' up c) = Responded (Response st b) \<and> st \<in> {200, 500}"
    by (auto simp: top_handler_def split: upstream.splits)
  show "\<exists>st b. fst (coin_handler cid0 up0) = Responded (Response st b) \<and> st \<in> {200, 500}"
    by (auto simp: coin_handler_def split: upstream.splits)
  show "\<exists>st b. fst (add_handler find_fault save_fault db uid cid cname) =
                Responded (Response st b) \<and> st \<in> {200, 400, 500}"
    by (auto simp: add_handler_def findById_def save_def Let_def split: option.splits)
  show "\<exists>st b. fst (remove_handler find_fault save_fault db uid cid) =
                Responded (Response st b) \<and> st \<in> {200, 500}"
    by (auto simp: remove_handler_def findById_def save_def Let_def split: option.splits)
qed

text \<open>
  The watchlist view sends no response exactly when its \<^verbatim>\<open>try\<close> block throws and the
  second load fails or finds no user.
\<close>

theorem list_handler_rejects_iff:
  "fst (list_handler found found' now now' up c) = Rejected \<longleftrightarrow>
     fst (list_try found now now' up c) = Thrown \<and> (found' = Threw \<or> found' = Returned None)"
proof (cases "list_try found now now' up c")
  case (fields a c' evs)
  show ?thesis
  proof (cases a)
    case (Done r)
    with fields show ?thesis by (simp add: list_handler_def)
  next
    case Thrown
    with fields show ?thesis
      by (auto simp: list_handler_def list_catch_def Let_def
          split: io.splits option.splits slot.splits)
  qed
qed

end
